theory Spec2Isabelle
  imports Main
begin

section \<open>House of Plants: the authentication routes\<close>

text \<open>
  A shallow embedding of \<^verbatim>\<open>src/routes/auth.js\<close> (the handlers of
  \<^verbatim>\<open>POST /auth/signup\<close>, \<^verbatim>\<open>POST /auth/login\<close> and \<^verbatim>\<open>GET /auth/logout\<close>) and of
  the middleware of \<^verbatim>\<open>src/app.js\<close> that copies the session's user into the view
  context. A handler is a function from the request and the state of the world (the
  users collection, the session store, the mails handed to the transporter) to the way
  the request ends and the new state. Promises are run to completion in the order the
  source chains them; a rejection follows the chain to the \<^verbatim>\<open>.catch\<close> attached to it,
  and where the source attaches none the request ends in an unhandled rejection.
\<close>

subsection \<open>JavaScript values of the form interface\<close>

text \<open>
  A field of \<^verbatim>\<open>req.body\<close> is a string or \<^verbatim>\<open>undefined\<close> (the field was not sent):
  \<open>None\<close> is \<^verbatim>\<open>undefined\<close>. A posted string is the list of its code units, so
  that \<open>length\<close> is the \<^verbatim>\<open>.length\<close> of the source.
\<close>

type_synonym field = "string option"

text \<open>\<^verbatim>\<open>!v\<close>: \<^verbatim>\<open>undefined\<close> and the empty string are the falsy values of a field.\<close>

definition falsy :: "field \<Rightarrow> bool" where
  "falsy v = (case v of None \<Rightarrow> True | Some str \<Rightarrow> str = [])"

datatype error_class = TypeError | ReferenceError | ValidationError | OtherError

text \<open>
  An error object: its class (what \<^verbatim>\<open>instanceof\<close> tests), its \<^verbatim>\<open>code\<close> property
  when it has one, and its \<^verbatim>\<open>message\<close>.
\<close>

datatype js_error = JsError (err_class: error_class) (err_code: "int option") (err_message: string)

text \<open>
  \<^verbatim>\<open>password.length\<close> where \<^verbatim>\<open>password\<close> is \<^verbatim>\<open>undefined\<close>: reading a property
  of \<^verbatim>\<open>undefined\<close> throws this TypeError.
\<close>

definition length_of_undefined :: js_error where
  "length_of_undefined =
     JsError TypeError None ''Cannot read properties of undefined (reading 'length')''"

text \<open>The values a handler passes to a view.\<close>

datatype js_value = Undefined | Str string | Bool bool | StrList "string list"

definition val :: "field \<Rightarrow> js_value" where
  "val v = (case v of None \<Rightarrow> Undefined | Some str \<Rightarrow> Str str)"

subsection \<open>The data model\<close>

text \<open>\<^verbatim>\<open>req.body\<close>, with the fields the two forms post.\<close>

record body =
  username :: field
  password :: field
  email :: field
  name :: field
  berlinBorough :: field
  location :: field
  latitude :: field
  longitude :: field

text \<open>The \<^verbatim>\<open>location\<close> attribute of a user: a type tag and a coordinate pair.\<close>

record geo =
  geo_type :: string
  coordinates :: "field list"

text \<open>A User document, with the attributes \<^verbatim>\<open>User.create\<close> is given at signup.\<close>

record user =
  u_username :: field
  u_password :: string
  u_email :: field
  u_name :: field
  u_berlinBorough :: field
  u_location :: geo
  u_profilePicture :: string

text \<open>The session record of a request: \<^verbatim>\<open>req.session\<close>, holding \<^verbatim>\<open>user\<close> or not.\<close>

record session =
  session_user :: "user option"

type_synonym sid = nat

text \<open>A mail as \<^verbatim>\<open>transporter.sendMail\<close> receives it.\<close>

record mail =
  mail_from :: string
  mail_to :: field
  mail_subject :: string
  mail_text :: string
  mail_html :: string

text \<open>
  The world a handler acts on: the users collection in insertion order, the session
  store (a session id resolves to a record or to nothing), the mails handed to the
  transporter, and the rejections of promises that a handler started and dropped, which
  nothing handles.
\<close>

record state =
  users :: "user list"
  sessions :: "sid \<Rightarrow> session option"
  outbox :: "mail list"
  dropped_rejections :: "js_error list"

record request =
  sessionID :: sid
  body :: body

text \<open>
  The collaborators the handlers call and the repository does not define: the constants
  \<^verbatim>\<open>BERLIN_BOROUGHS\<close> and \<^verbatim>\<open>welcomeMessage\<close>, the three functions of bcryptjs, and
  for each asynchronous operation of the database, the session store and the
  transporter the error it fails with on this request, if it fails.
\<close>

record env =
  BERLIN_BOROUGHS :: "string list"
  welcomeMessage :: string
  bcrypt_genSalt :: "nat \<Rightarrow> string"
  bcrypt_hash :: "string \<Rightarrow> string \<Rightarrow> string"
  bcrypt_compare :: "string \<Rightarrow> string \<Rightarrow> bool"
  findOne_rejects :: "js_error option"
  create_rejects :: "js_error option"
  sendMail_rejects :: "js_error option"
  destroy_fails :: "js_error option"

text \<open>
  How a request ends: a rendered view (status, view name, the values passed to it), a
  redirect, the error passed to \<^verbatim>\<open>next\<close> (the error-handling middleware), an
  exception thrown out of the handler, or a promise rejected with nothing attached to
  catch it (no response is sent).
\<close>

datatype outcome =
    Render nat string "(string \<times> js_value) list"
  | Redirect string
  | Next js_error
  | Throw js_error
  | UnhandledRejection js_error

subsection \<open>The User store\<close>

datatype query = Username field | Email field | Or "query list"

fun matches :: "query \<Rightarrow> user \<Rightarrow> bool" where
  "matches (Username v) u = (u_username u = v)"
| "matches (Email v) u = (u_email u = v)"
| "matches (Or qs) u = list_ex (\<lambda>q. matches q u) qs"

text \<open>
  Modelled from the spec: the User model (\<^verbatim>\<open>models/User.model\<close>) and its database
  are not among the sources. \<^verbatim>\<open>User.findOne\<close> resolves to the first document that
  matches the query, or to \<^verbatim>\<open>null\<close>, unless the lookup fails.
\<close>

definition User_findOne :: "env \<Rightarrow> query \<Rightarrow> state \<Rightarrow> js_error + user option" where
  "User_findOne env q s =
     (case findOne_rejects env of
        Some err \<Rightarrow> Inl err
      | None \<Rightarrow> Inr (find (matches q) (users s)))"

text \<open>
  Modelled from the spec: \<^verbatim>\<open>User.create\<close> resolves to the created document, which
  it appends to the collection, unless the write fails; the uniqueness constraint on
  username and email rejects a write that repeats either with the duplicate-key error,
  code 11000.
\<close>

definition User_create :: "env \<Rightarrow> user \<Rightarrow> state \<Rightarrow> js_error + (user \<times> state)" where
  "User_create env doc s =
     (case create_rejects env of
        Some err \<Rightarrow> Inl err
      | None \<Rightarrow>
          if list_ex (\<lambda>u. u_username u = u_username doc \<or> u_email u = u_email doc) (users s)
          then Inl (JsError OtherError (Some 11000) ''E11000 duplicate key error'')
          else Inr (doc, s\<lparr>users := users s @ [doc]\<rparr>))"

subsection \<open>The session and the transporter\<close>

text \<open>\<^verbatim>\<open>req.session.user = user\<close>.\<close>

definition set_session_user :: "request \<Rightarrow> user \<Rightarrow> state \<Rightarrow> state" where
  "set_session_user req u s =
     s\<lparr>sessions := (sessions s)(sessionID req \<mapsto>
          (case sessions s (sessionID req) of
             None \<Rightarrow> \<lparr>session_user = Some u\<rparr>
           | Some r \<Rightarrow> r\<lparr>session_user := Some u\<rparr>))\<rparr>"

text \<open>
  \<^verbatim>\<open>req.session.destroy(callback)\<close>: the record is removed from the store and the
  callback gets no error, or the store fails, the record stays and the callback gets
  the error.
\<close>

definition session_destroy :: "env \<Rightarrow> request \<Rightarrow> state \<Rightarrow> js_error option \<times> state" where
  "session_destroy env req s =
     (case destroy_fails env of
        Some err \<Rightarrow> (Some err, s)
      | None \<Rightarrow> (None, s\<lparr>sessions := (sessions s)(sessionID req := None)\<rparr>))"

text \<open>
  \<^verbatim>\<open>transporter.sendMail(mail)\<close>: the mail is handed to the transporter. The caller
  drops the promise the call returns, so a send that fails leaves a rejection nothing
  handles and changes nothing else.
\<close>

definition sendMail :: "env \<Rightarrow> mail \<Rightarrow> state \<Rightarrow> state" where
  "sendMail env m s =
     s\<lparr>outbox := outbox s @ [m],
       dropped_rejections := dropped_rejections s @
         (case sendMail_rejects env of None \<Rightarrow> [] | Some err \<Rightarrow> [err])\<rparr>"

subsection \<open>\<^verbatim>\<open>POST /auth/signup\<close>\<close>

definition saltRounds :: nat where
  "saltRounds = 10"

text \<open>
  The values a re-render of the signup view echoes: the message, the boroughs, the map
  flag and the entered fields, the password among them.
\<close>

definition signup_locals :: "env \<Rightarrow> string \<Rightarrow> body \<Rightarrow> (string \<times> js_value) list" where
  "signup_locals env msg b =
     [(''errorMessage'', Str msg),
      (''berlinBoroughs'', StrList (BERLIN_BOROUGHS env)),
      (''containsMap'', Bool True),
      (''username'', val (username b)),
      (''password'', val (password b)),
      (''email'', val (email b)),
      (''name'', val (name b)),
      (''berlinBorough'', val (berlinBorough b)),
      (''latitude'', val (latitude b)),
      (''longitude'', val (longitude b))]"

text \<open>The \<^verbatim>\<open>.catch\<close> at the end of the hash-and-create chain.\<close>

definition signup_catch :: "js_error \<Rightarrow> outcome" where
  "signup_catch error =
     (if err_class error = ValidationError
      then Render 400 ''auth/signup'' [(''errorMessage'', Str (err_message error))]
      else if err_code error = Some 11000
      then Render 400 ''signup''
             [(''errorMessage'',
               Str ''Username and email need to be unique. The username/email you entered is already in use.'')]
      else Render 500 ''auth/signup'' [(''errorMessage'', Str (err_message error))])"

text \<open>The document \<^verbatim>\<open>User.create\<close> is called with.\<close>

definition new_user :: "body \<Rightarrow> string \<Rightarrow> user" where
  "new_user b hashedPassword =
     \<lparr>u_username = username b,
      u_password = hashedPassword,
      u_email = email b,
      u_name = name b,
      u_berlinBorough = berlinBorough b,
      u_location = \<lparr>geo_type = ''Point'', coordinates = [longitude b, latitude b]\<rparr>,
      u_profilePicture = ''/images/default-profile-picture.png''\<rparr>"

text \<open>
  The welcome mail. The sender and the subject of the source hold two emoji (U+1F331,
  U+1FAB4) and the sender a pair of double quotes; they are written here as their UTF-8
  bytes and as \<open>CHR 0x22\<close>.
\<close>

definition seedling :: string where
  "seedling = [CHR 0xF0, CHR 0x9F, CHR 0x8C, CHR 0xB1]"

definition potted_plant :: string where
  "potted_plant = [CHR 0xF0, CHR 0x9F, CHR 0xAA, CHR 0xB4]"

definition welcome_mail :: "env \<Rightarrow> user \<Rightarrow> mail" where
  "welcome_mail env u =
     \<lparr>mail_from =
        [CHR 0x22] @ ''House of Plants '' @ seedling @ [CHR 0x22] @ '' <houseofplants.ih@gmail.com>'',
      mail_to = u_email u,
      mail_subject = potted_plant @ '' Welcome to House of Plants '' @ potted_plant,
      mail_text = ''Hello world?'',
      mail_html = welcomeMessage env\<rparr>"

text \<open>
  The handler. The identifier \<^verbatim>\<open>newsletter\<close> in the object literal of the
  already-taken render is declared nowhere in the module, so evaluating the literal
  throws a ReferenceError inside the callback of \<^verbatim>\<open>User.findOne(...).then\<close>; that
  promise has no \<^verbatim>\<open>.catch\<close> (the one in the source closes the inner chain, which
  starts at \<^verbatim>\<open>bcrypt.genSalt\<close>), and neither has a rejection of the lookup itself.
  When the literal throws, \<^verbatim>\<open>res.status(400)\<close> has run and nothing has been sent.
\<close>

definition post_signup :: "env \<Rightarrow> request \<Rightarrow> state \<Rightarrow> outcome \<times> state" where
  "post_signup env req s =
     (let b = body req in
      if falsy (username b) \<or> falsy (name b) \<or> falsy (email b) then
        (Render 400 ''auth/signup'' (signup_locals env ''Please fill in all required fields.'' b), s)
      else
        (case password b of
           None \<Rightarrow> (Throw length_of_undefined, s)
         | Some pw \<Rightarrow>
             if length pw < 8 then
               (Render 400 ''auth/signup''
                  (signup_locals env ''Your password needs to be at least 8 characters long.'' b), s)
             else
               (case User_findOne env (Or [Username (username b), Email (email b)]) s of
                  Inl err \<Rightarrow> (UnhandledRejection err, s)
                | Inr (Some found) \<Rightarrow>
                    (UnhandledRejection (JsError ReferenceError None ''newsletter is not defined''), s)
                | Inr None \<Rightarrow>
                    (let salt = bcrypt_genSalt env saltRounds;
                         hashedPassword = bcrypt_hash env pw salt
                     in (case User_create env (new_user b hashedPassword) s of
                           Inl error \<Rightarrow> (signup_catch error, s)
                         | Inr (u, s') \<Rightarrow>
                             (Redirect ''/'',
                              sendMail env (welcome_mail env u) (set_session_user req u s')))))))"

subsection \<open>\<^verbatim>\<open>POST /auth/login\<close>\<close>

definition login_error :: "string \<Rightarrow> outcome" where
  "login_error msg = Render 400 ''auth/login'' [(''errorMessage'', Str msg)]"

text \<open>
  The handler. The first test is \<^verbatim>\<open>!password && !password\<close> in the source. A
  rejection of the lookup reaches the \<^verbatim>\<open>.catch\<close>, which passes it to \<^verbatim>\<open>next\<close>.
\<close>

definition post_login :: "env \<Rightarrow> request \<Rightarrow> state \<Rightarrow> outcome \<times> state" where
  "post_login env req s =
     (let b = body req in
      if falsy (password b) \<and> falsy (password b) then
        (login_error ''Please provide your username and password.'', s)
      else if falsy (username b) then
        (login_error ''Please provide your username.'', s)
      else if falsy (password b) then
        (login_error ''Please provide your password.'', s)
      else
        (case password b of
           None \<Rightarrow> (Throw length_of_undefined, s)
         | Some pw \<Rightarrow>
             if length pw < 8 then
               (login_error ''Your password needs to be at least 8 characters long.'', s)
             else
               (case User_findOne env (Username (username b)) s of
                  Inl err \<Rightarrow> (Next err, s)
                | Inr None \<Rightarrow> (login_error ''Wrong credentials.'', s)
                | Inr (Some u) \<Rightarrow>
                    if bcrypt_compare env pw (u_password u)
                    then (Redirect ''/'', set_session_user req u s)
                    else (login_error ''Wrong credentials.'', s))))"

subsection \<open>\<^verbatim>\<open>GET /auth/logout\<close>\<close>

definition get_logout :: "env \<Rightarrow> request \<Rightarrow> state \<Rightarrow> outcome \<times> state" where
  "get_logout env req s =
     (case session_destroy env req s of
        (Some err, s') \<Rightarrow> (Render 500 ''auth/logout'' [(''errorMessage'', Str (err_message err))], s')
      | (None, s') \<Rightarrow> (Redirect ''/'', s'))"

subsection \<open>The view context (\<^verbatim>\<open>src/app.js\<close>)\<close>

text \<open>
  \<^verbatim>\<open>if (req.session.user) res.locals.user = req.session.user\<close>: the value of
  \<^verbatim>\<open>res.locals.user\<close> that every view of the request sees, if it is set.
\<close>

definition res_locals_user :: "request \<Rightarrow> state \<Rightarrow> user option" where
  "res_locals_user req s =
     (case sessions s (sessionID req) of
        None \<Rightarrow> None
      | Some r \<Rightarrow> (case session_user r of None \<Rightarrow> None | Some u \<Rightarrow> Some u))"

subsection \<open>Sample collaborators and requests\<close>

text \<open>
  One instance of the collaborators, with a toy hash in place of bcrypt (the salt
  followed by the password) and no failing operation, a collection that holds one user,
  and two form submissions. The closed theorems below evaluate the handlers on them.
\<close>

definition demo_env :: env where
  "demo_env =
     \<lparr>BERLIN_BOROUGHS = [''Mitte'', ''Pankow''],
      welcomeMessage = ''Welcome!'',
      bcrypt_genSalt = (\<lambda>rounds. ''salt''),
      bcrypt_hash = (\<lambda>pw salt. salt @ pw),
      bcrypt_compare = (\<lambda>pw hashed. hashed = ''salt'' @ pw),
      findOne_rejects = None,
      create_rejects = None,
      sendMail_rejects = None,
      destroy_fails = None\<rparr>"

definition alice :: user where
  "alice =
     \<lparr>u_username = Some ''alice'',
      u_password = ''saltwonderland'',
      u_email = Some ''alice@example.org'',
      u_name = Some ''Alice'',
      u_berlinBorough = None,
      u_location = \<lparr>geo_type = ''Point'', coordinates = [None, None]\<rparr>,
      u_profilePicture = ''/images/default-profile-picture.png''\<rparr>"

definition empty_state :: state where
  "empty_state = \<lparr>users = [], sessions = (\<lambda>i. None), outbox = [], dropped_rejections = []\<rparr>"

definition alice_state :: state where
  "alice_state = \<lparr>users = [alice], sessions = (\<lambda>i. None), outbox = [], dropped_rejections = []\<rparr>"

definition bob_form :: body where
  "bob_form =
     \<lparr>username = Some ''bob'', password = Some ''builder123'', email = Some ''bob@example.org'',
      name = Some ''Bob'', berlinBorough = Some ''Mitte'', location = None,
      latitude = Some ''52.52'', longitude = Some ''13.40''\<rparr>"

definition bob_login :: body where
  "bob_login =
     \<lparr>username = Some ''bob'', password = Some ''builder123'', email = None,
      name = None, berlinBorough = None, location = None, latitude = None, longitude = None\<rparr>"

definition alice_session :: state where
  "alice_session =
     \<lparr>users = [alice],
      sessions = (\<lambda>i. None)(5 \<mapsto> \<lparr>session_user = Some alice\<rparr>),
      outbox = [],
      dropped_rejections = []\<rparr>"

lemmas handler_defs =
  post_signup_def post_login_def get_logout_def User_findOne_def User_create_def
  new_user_def set_session_user_def sendMail_def welcome_mail_def seedling_def
  potted_plant_def falsy_def
  signup_locals_def signup_catch_def login_error_def session_destroy_def
  res_locals_user_def val_def saltRounds_def length_of_undefined_def Let_def

lemmas demo_defs =
  demo_env_def alice_def empty_state_def alice_state_def alice_session_def bob_form_def
  bob_login_def

section \<open>Properties\<close>

subsection \<open>Auxiliary facts\<close>

lemma not_falsy_iff: "\<not> falsy v \<longleftrightarrow> (\<exists>c cs. v = Some (c # cs))"
  by (cases v) (auto simp: falsy_def neq_Nil_conv)

lemma find_snoc_new: "find P xs = None \<Longrightarrow> P x \<Longrightarrow> find P (xs @ [x]) = Some x"
  by (induction xs) (auto split: if_splits)

lemma session_surj: "r\<lparr>session_user := v\<rparr> = \<lparr>session_user = v\<rparr>"
  by (cases r) simp

subsection \<open>Signup: the required fields\<close>

text \<open>
  Claim C8. A signup submission in which the username, the name or the email is
  missing (not sent, or sent empty) ends in a render of the signup view with status 400,
  the message that all required fields are to be filled in and the entered values of
  the form. The state is the one the request found: no user is created. The equation
  holds for every instance of the collaborators, whatever the lookup, the hash or the
  write would have answered: none of them is consulted.
\<close>

theorem signup_missing_required_field:
  assumes "falsy (username (body req)) \<or> falsy (name (body req)) \<or> falsy (email (body req))"
  shows "post_signup env req s =
     (Render 400 ''auth/signup''
        [(''errorMessage'', Str ''Please fill in all required fields.''),
         (''berlinBoroughs'', StrList (BERLIN_BOROUGHS env)),
         (''containsMap'', Bool True),
         (''username'', val (username (body req))),
         (''password'', val (password (body req))),
         (''email'', val (email (body req))),
         (''name'', val (name (body req))),
         (''berlinBorough'', val (berlinBorough (body req))),
         (''latitude'', val (latitude (body req))),
         (''longitude'', val (longitude (body req)))],
      s)"
  using assms by (simp add: post_signup_def signup_locals_def Let_def)

theorem signup_missing_required_field_witness:
  "falsy (name (bob_form\<lparr>name := Some ''''\<rparr>)) \<and>
   post_signup demo_env \<lparr>sessionID = 1, body = bob_form\<lparr>name := Some ''''\<rparr>\<rparr> alice_state =
     (Render 400 ''auth/signup''
        [(''errorMessage'', Str ''Please fill in all required fields.''),
         (''berlinBoroughs'', StrList [''Mitte'', ''Pankow'']),
         (''containsMap'', Bool True),
         (''username'', Str ''bob''),
         (''password'', Str ''builder123''),
         (''email'', Str ''bob@example.org''),
         (''name'', Str ''''),
         (''berlinBorough'', Str ''Mitte''),
         (''latitude'', Str ''52.52''),
         (''longitude'', Str ''13.40'')],
      alice_state)"
  using signup_missing_required_field
    [of "\<lparr>sessionID = 1, body = bob_form\<lparr>name := Some ''''\<rparr>\<rparr>" demo_env alice_state]
  by (simp add: falsy_def val_def demo_defs)

subsection \<open>Signup: the success path\<close>

text \<open>
  Claim C7. A signup submission that passes the validation (username, name and email
  present, a password of at least 8 characters), finds no user with its username or its
  email and whose write the store accepts: the password is hashed with a salt of 10
  rounds; the created User holds that hash in its password attribute, the longitude and
  the latitude of the form as the coordinates of a location of type Point, and the
  default profile picture path; the created user is bound to the session of the
  request; one mail is handed to the transporter, addressed to the email of the form,
  from the House of Plants sender, with the welcome subject, the text of the source and
  the welcome message as its HTML body; the response is a redirect to the home route.
  The handler does not wait for the transporter: when the send fails, the response and
  everything else are the same, and the failure is left as a rejection that nothing
  handles.
\<close>

theorem signup_success:
  assumes "\<not> falsy (username (body req))" and "\<not> falsy (name (body req))"
    and "\<not> falsy (email (body req))"
    and "password (body req) = Some pw" and "8 \<le> length pw"
    and "findOne_rejects env = None" and "create_rejects env = None"
    and "\<forall>u \<in> set (users s).
           u_username u \<noteq> username (body req) \<and> u_email u \<noteq> email (body req)"
  shows "post_signup env req s =
     (let created =
        \<lparr>u_username = username (body req),
         u_password = bcrypt_hash env pw (bcrypt_genSalt env 10),
         u_email = email (body req),
         u_name = name (body req),
         u_berlinBorough = berlinBorough (body req),
         u_location = \<lparr>geo_type = ''Point'',
                       coordinates = [longitude (body req), latitude (body req)]\<rparr>,
         u_profilePicture = ''/images/default-profile-picture.png''\<rparr>
      in (Redirect ''/'',
          s\<lparr>users := users s @ [created],
            sessions := (sessions s)(sessionID req \<mapsto> \<lparr>session_user = Some created\<rparr>),
            outbox := outbox s @
              [\<lparr>mail_from =
                  [CHR 0x22] @ ''House of Plants '' @ [CHR 0xF0, CHR 0x9F, CHR 0x8C, CHR 0xB1] @
                  [CHR 0x22] @ '' <houseofplants.ih@gmail.com>'',
                mail_to = email (body req),
                mail_subject =
                  [CHR 0xF0, CHR 0x9F, CHR 0xAA, CHR 0xB4] @ '' Welcome to House of Plants '' @
                  [CHR 0xF0, CHR 0x9F, CHR 0xAA, CHR 0xB4],
                mail_text = ''Hello world?'',
                mail_html = welcomeMessage env\<rparr>],
            dropped_rejections := dropped_rejections s @
              (case sendMail_rejects env of None \<Rightarrow> [] | Some err \<Rightarrow> [err])\<rparr>))"
proof -
  let ?q = "Or [Username (username (body req)), Email (email (body req))]"
  have none: "find (matches ?q) (users s) = None"
    using assms(8) by (auto simp: find_None_iff)
  have lookup: "User_findOne env ?q s = Inr None"
    using assms(6) none by (simp add: User_findOne_def)
  have free: "\<not> list_ex (\<lambda>u. u_username u = username (body req) \<or> u_email u = email (body req))
                  (users s)"
    using assms(8) by (auto simp: list_ex_iff)
  show ?thesis
    using assms(1-5,7) lookup free
    by (simp add: post_signup_def Let_def User_create_def new_user_def saltRounds_def
        set_session_user_def sendMail_def welcome_mail_def seedling_def potted_plant_def
        session_surj split: option.splits)
qed

theorem signup_success_witness:
  "\<not> falsy (username bob_form) \<and> \<not> falsy (name bob_form) \<and> \<not> falsy (email bob_form) \<and>
   password bob_form = Some ''builder123'' \<and> 8 \<le> length ''builder123'' \<and>
   list_all (\<lambda>u. u_username u \<noteq> username bob_form \<and> u_email u \<noteq> email bob_form)
      (users alice_state) \<and>
   post_signup (demo_env\<lparr>sendMail_rejects := Some (JsError OtherError None ''smtp is down'')\<rparr>)
       \<lparr>sessionID = 7, body = bob_form\<rparr> alice_state =
     (Redirect ''/'',
      \<lparr>users =
         [alice,
          \<lparr>u_username = Some ''bob'', u_password = ''saltbuilder123'',
           u_email = Some ''bob@example.org'', u_name = Some ''Bob'',
           u_berlinBorough = Some ''Mitte'',
           u_location = \<lparr>geo_type = ''Point'', coordinates = [Some ''13.40'', Some ''52.52'']\<rparr>,
           u_profilePicture = ''/images/default-profile-picture.png''\<rparr>],
       sessions = (\<lambda>i. None)(7 \<mapsto>
         \<lparr>session_user = Some
           \<lparr>u_username = Some ''bob'', u_password = ''saltbuilder123'',
            u_email = Some ''bob@example.org'', u_name = Some ''Bob'',
            u_berlinBorough = Some ''Mitte'',
            u_location = \<lparr>geo_type = ''Point'', coordinates = [Some ''13.40'', Some ''52.52'']\<rparr>,
            u_profilePicture = ''/images/default-profile-picture.png''\<rparr>\<rparr>),
       outbox =
         [\<lparr>mail_from =
             [CHR 0x22] @ ''House of Plants '' @ [CHR 0xF0, CHR 0x9F, CHR 0x8C, CHR 0xB1] @
             [CHR 0x22] @ '' <houseofplants.ih@gmail.com>'',
           mail_to = Some ''bob@example.org'',
           mail_subject =
             [CHR 0xF0, CHR 0x9F, CHR 0xAA, CHR 0xB4] @ '' Welcome to House of Plants '' @
             [CHR 0xF0, CHR 0x9F, CHR 0xAA, CHR 0xB4],
           mail_text = ''Hello world?'',
           mail_html = ''Welcome!''\<rparr>],
       dropped_rejections = [JsError OtherError None ''smtp is down'']\<rparr>)"
  using signup_success
    [of "\<lparr>sessionID = 7, body = bob_form\<rparr>" "''builder123''"
        "demo_env\<lparr>sendMail_rejects := Some (JsError OtherError None ''smtp is down'')\<rparr>" alice_state]
  by (simp add: falsy_def demo_defs Let_def)

subsection \<open>Login: wrong credentials\<close>

text \<open>
  Claim C5. A well-formed login submission (username present, password of at least 8
  characters) whose lookup completes: when no user has that username, and when the user
  the lookup finds has a stored hash the password does not match, the handler answers
  with the same value, the render of the login view with status 400 and the one message
  \<^verbatim>\<open>Wrong credentials.\<close>, and leaves the state as it found it, so no user is bound to
  the session. Nothing in the response tells the two causes apart.
\<close>

theorem login_wrong_credentials:
  assumes "\<not> falsy (username (body req))"
    and "password (body req) = Some pw" and "8 \<le> length pw"
    and "findOne_rejects env = None"
    and "(\<forall>u \<in> set (users s). u_username u \<noteq> username (body req)) \<or>
         (\<exists>u. find (\<lambda>u. u_username u = username (body req)) (users s) = Some u \<and>
              \<not> bcrypt_compare env pw (u_password u))"
  shows "post_login env req s =
           (Render 400 ''auth/login'' [(''errorMessage'', Str ''Wrong credentials.'')], s)"
proof -
  have pw: "\<not> falsy (password (body req))"
    using assms(2,3) by (auto simp: falsy_def)
  have q: "matches (Username (username (body req))) = (\<lambda>u. u_username u = username (body req))"
    by (rule ext) simp
  from assms(5) show ?thesis
  proof
    assume "\<forall>u \<in> set (users s). u_username u \<noteq> username (body req)"
    then have "find (\<lambda>u. u_username u = username (body req)) (users s) = None"
      by (auto simp: find_None_iff)
    then show ?thesis
      using assms(1-4) pw
      by (simp add: post_login_def Let_def User_findOne_def login_error_def q)
  next
    assume "\<exists>u. find (\<lambda>u. u_username u = username (body req)) (users s) = Some u \<and>
              \<not> bcrypt_compare env pw (u_password u)"
    then show ?thesis
      using assms(1-4) pw
      by (auto simp: post_login_def Let_def User_findOne_def login_error_def q)
  qed
qed

theorem login_wrong_credentials_witness:
  "\<not> falsy (Some ''carol'') \<and> (8::nat) \<le> length ''wonderland'' \<and>
   list_all (\<lambda>u. u_username u \<noteq> Some ''carol'') (users alice_state) \<and>
   post_login demo_env
     \<lparr>sessionID = 3, body = bob_login\<lparr>username := Some ''carol'', password := Some ''wonderland''\<rparr>\<rparr>
     alice_state =
     (Render 400 ''auth/login'' [(''errorMessage'', Str ''Wrong credentials.'')], alice_state) \<and>
   find (\<lambda>u. u_username u = Some ''alice'') (users alice_state) = Some alice \<and>
   \<not> bcrypt_compare demo_env ''wonderful'' (u_password alice) \<and>
   post_login demo_env
     \<lparr>sessionID = 3, body = bob_login\<lparr>username := Some ''alice'', password := Some ''wonderful''\<rparr>\<rparr>
     alice_state =
     (Render 400 ''auth/login'' [(''errorMessage'', Str ''Wrong credentials.'')], alice_state)"
  using
    login_wrong_credentials
      [of "\<lparr>sessionID = 3, body = bob_login\<lparr>username := Some ''carol'', password := Some ''wonderland''\<rparr>\<rparr>"
          "''wonderland''" demo_env alice_state]
    login_wrong_credentials
      [of "\<lparr>sessionID = 3, body = bob_login\<lparr>username := Some ''alice'', password := Some ''wonderful''\<rparr>\<rparr>"
          "''wonderful''" demo_env alice_state]
  by (simp add: falsy_def demo_defs)

subsection \<open>Logout\<close>

text \<open>
  Claim C9. A logout request that reaches the handler destroys the session record:
  when the store does not fail, the response is a redirect to the home route, the
  session id of the request resolves to no record at all (the record is removed, not
  kept with its user cleared), and the view context of a later request with that id
  holds no user; when the store fails with an error, the response is a render of the
  view \<^verbatim>\<open>auth/logout\<close> with status 500 and the error's message.
\<close>

theorem logout_destroys_session:
  "(destroy_fails env = None \<longrightarrow>
      get_logout env req s = (Redirect ''/'', s\<lparr>sessions := (sessions s)(sessionID req := None)\<rparr>) \<and>
      sessions (snd (get_logout env req s)) (sessionID req) = None \<and>
      res_locals_user req (snd (get_logout env req s)) = None) \<and>
   (\<forall>err. destroy_fails env = Some err \<longrightarrow>
      get_logout env req s =
        (Render 500 ''auth/logout'' [(''errorMessage'', Str (err_message err))], s))"
  by (simp add: get_logout_def session_destroy_def res_locals_user_def)

theorem logout_destroys_session_witness:
  "destroy_fails demo_env = None \<and>
   res_locals_user \<lparr>sessionID = 5, body = bob_login\<rparr> alice_session = Some alice \<and>
   get_logout demo_env \<lparr>sessionID = 5, body = bob_login\<rparr> alice_session = (Redirect ''/'', alice_state) \<and>
   sessions (snd (get_logout demo_env \<lparr>sessionID = 5, body = bob_login\<rparr> alice_session)) 5 = None \<and>
   res_locals_user \<lparr>sessionID = 5, body = bob_login\<rparr>
     (snd (get_logout demo_env \<lparr>sessionID = 5, body = bob_login\<rparr> alice_session)) = None \<and>
   get_logout (demo_env\<lparr>destroy_fails := Some (JsError OtherError None ''store is down'')\<rparr>)
     \<lparr>sessionID = 5, body = bob_login\<rparr> alice_session =
     (Render 500 ''auth/logout'' [(''errorMessage'', Str ''store is down'')], alice_session)"
  using
    logout_destroys_session [of demo_env "\<lparr>sessionID = 5, body = bob_login\<rparr>" alice_session]
    logout_destroys_session
      [of "demo_env\<lparr>destroy_fails := Some (JsError OtherError None ''store is down'')\<rparr>"
          "\<lparr>sessionID = 5, body = bob_login\<rparr>" alice_session]
  by (simp add: demo_defs res_locals_user_def fun_eq_iff)

subsection \<open>Signup, then login\<close>

lemma signup_redirect_cases:
  assumes "fst (post_signup env req s) = Redirect ''/''"
  obtains pw where "\<not> falsy (username (body req))" "password (body req) = Some pw"
    "8 \<le> length pw" "findOne_rejects env = None"
    "find (matches (Or [Username (username (body req)), Email (email (body req))])) (users s) = None"
    "snd (post_signup env req s) =
       sendMail env (welcome_mail env (new_user (body req) (bcrypt_hash env pw (bcrypt_genSalt env saltRounds))))
         (set_session_user req (new_user (body req) (bcrypt_hash env pw (bcrypt_genSalt env saltRounds)))
            (s\<lparr>users := users s @ [new_user (body req) (bcrypt_hash env pw (bcrypt_genSalt env saltRounds))]\<rparr>))"
  using assms
  by (auto simp: post_signup_def Let_def User_findOne_def User_create_def signup_catch_def
      split: if_splits option.splits sum.splits)

text \<open>
  Claim C4, as the source has it. The handler binds the document the lookup returned,
  whole, to the session (the source says so beside the assignment: the id alone would
  be safer, the entire user object is saved), and the middleware of \<^verbatim>\<open>app.js\<close>
  copies that object into the view context. Evaluated on the sample: after a signup and
  a login with the same password, the user of the view context carries the stored hash
  in its password attribute.
\<close>

theorem login_view_context_holds_hash:
  "fst (post_signup demo_env \<lparr>sessionID = 1, body = bob_form\<rparr> empty_state) = Redirect ''/'' \<and>
   fst (post_login demo_env \<lparr>sessionID = 2, body = bob_login\<rparr>
          (snd (post_signup demo_env \<lparr>sessionID = 1, body = bob_form\<rparr> empty_state))) = Redirect ''/'' \<and>
   bcrypt_hash demo_env ''builder123'' (bcrypt_genSalt demo_env saltRounds) = ''saltbuilder123'' \<and>
   map_option u_password
     (res_locals_user \<lparr>sessionID = 2, body = bob_login\<rparr>
       (snd (post_login demo_env \<lparr>sessionID = 2, body = bob_login\<rparr>
          (snd (post_signup demo_env \<lparr>sessionID = 1, body = bob_form\<rparr> empty_state))))) =
     Some ''saltbuilder123''"
  by (simp add: handler_defs demo_defs)

text \<open>
  Claim C4, amended. Whenever a signup with password \<open>pw\<close> succeeds (it redirects
  home, which it does only for a password of at least 8 characters) and bcrypt accepts
  the password against the hash it made of it, a login that follows on the resulting
  collection with the same username and \<open>pw\<close>, under any session id, redirects home,
  and the view context of that session then holds the whole User document that the
  signup created and stored, the password hash among its attributes.
\<close>

theorem signup_login_roundtrip:
  assumes "fst (post_signup env req s) = Redirect ''/''"
    and "password (body req) = Some pw"
    and "bcrypt_compare env pw (bcrypt_hash env pw (bcrypt_genSalt env saltRounds))"
    and "username (body req') = username (body req)"
    and "password (body req') = Some pw"
  shows "fst (post_login env req' (snd (post_signup env req s))) = Redirect ''/'' \<and>
         new_user (body req) (bcrypt_hash env pw (bcrypt_genSalt env saltRounds))
           \<in> set (users (snd (post_signup env req s))) \<and>
         res_locals_user req' (snd (post_login env req' (snd (post_signup env req s)))) =
           Some (new_user (body req) (bcrypt_hash env pw (bcrypt_genSalt env saltRounds))) \<and>
         map_option u_password
             (res_locals_user req' (snd (post_login env req' (snd (post_signup env req s))))) =
           Some (bcrypt_hash env pw (bcrypt_genSalt env saltRounds))"
proof -
  let ?u = "new_user (body req) (bcrypt_hash env pw (bcrypt_genSalt env saltRounds))"
  let ?s1 = "snd (post_signup env req s)"
  from assms(1) obtain pw' where ok:
    "\<not> falsy (username (body req))" "password (body req) = Some pw'"
    "8 \<le> length pw'" "findOne_rejects env = None"
    "find (matches (Or [Username (username (body req)), Email (email (body req))])) (users s) = None"
    "?s1 =
       sendMail env (welcome_mail env (new_user (body req) (bcrypt_hash env pw' (bcrypt_genSalt env saltRounds))))
         (set_session_user req (new_user (body req) (bcrypt_hash env pw' (bcrypt_genSalt env saltRounds)))
            (s\<lparr>users := users s @ [new_user (body req) (bcrypt_hash env pw' (bcrypt_genSalt env saltRounds))]\<rparr>))"
    by (rule signup_redirect_cases)
  from ok(2) assms(2) have [simp]: "pw' = pw" by simp
  have users1: "users ?s1 = users s @ [?u]"
    using ok(6) by (simp add: sendMail_def set_session_user_def)
  have "find (\<lambda>u. u_username u = username (body req)) (users s) = None"
    using ok(5) by (auto simp: find_None_iff)
  moreover have "u_username ?u = username (body req)"
    by (simp add: new_user_def)
  ultimately have found: "find (\<lambda>u. u_username u = username (body req)) (users ?s1) = Some ?u"
    unfolding users1 by (rule find_snoc_new)
  have q: "matches (Username (username (body req))) = (\<lambda>u. u_username u = username (body req))"
    by (rule ext) simp
  have lookup: "User_findOne env (Username (username (body req'))) ?s1 = Inr (Some ?u)"
    using ok(4) found by (simp add: User_findOne_def assms(4) q)
  have nf: "\<not> falsy (username (body req'))" "\<not> falsy (password (body req'))"
    using ok(1,3) assms(4,5) by (auto simp: falsy_def)
  have hashed: "u_password ?u = bcrypt_hash env pw (bcrypt_genSalt env saltRounds)"
    by (simp add: new_user_def)
  have login: "post_login env req' ?s1 = (Redirect ''/'', set_session_user req' ?u ?s1)"
    using nf ok(3) assms(3,5) lookup hashed
    by (simp add: post_login_def Let_def)
  have stored: "?u \<in> set (users ?s1)"
    unfolding users1 by simp
  show ?thesis
    unfolding login using stored
    by (simp add: res_locals_user_def set_session_user_def hashed split: option.splits)
qed

theorem signup_login_roundtrip_witness:
  "fst (post_signup demo_env \<lparr>sessionID = 1, body = bob_form\<rparr> alice_state) = Redirect ''/'' \<and>
   bcrypt_compare demo_env ''builder123''
     (bcrypt_hash demo_env ''builder123'' (bcrypt_genSalt demo_env saltRounds)) \<and>
   fst (post_login demo_env \<lparr>sessionID = 2, body = bob_login\<rparr>
          (snd (post_signup demo_env \<lparr>sessionID = 1, body = bob_form\<rparr> alice_state))) = Redirect ''/'' \<and>
   res_locals_user \<lparr>sessionID = 2, body = bob_login\<rparr>
       (snd (post_login demo_env \<lparr>sessionID = 2, body = bob_login\<rparr>
          (snd (post_signup demo_env \<lparr>sessionID = 1, body = bob_form\<rparr> alice_state)))) =
     Some (new_user bob_form ''saltbuilder123'') \<and>
   map_option u_password
     (res_locals_user \<lparr>sessionID = 2, body = bob_login\<rparr>
       (snd (post_login demo_env \<lparr>sessionID = 2, body = bob_login\<rparr>
          (snd (post_signup demo_env \<lparr>sessionID = 1, body = bob_form\<rparr> alice_state))))) =
     Some ''saltbuilder123''"
proof -
  have a: "fst (post_signup demo_env \<lparr>sessionID = 1, body = bob_form\<rparr> alice_state) = Redirect ''/''"
    by (simp add: handler_defs demo_defs)
  have b: "bcrypt_compare demo_env ''builder123''
             (bcrypt_hash demo_env ''builder123'' (bcrypt_genSalt demo_env saltRounds))"
    by (simp add: demo_env_def)
  have c: "bcrypt_hash demo_env ''builder123'' (bcrypt_genSalt demo_env saltRounds) = ''saltbuilder123''"
    by (simp add: demo_env_def)
  show ?thesis
    using a b
      signup_login_roundtrip
        [where req' = "\<lparr>sessionID = 2, body = bob_login\<rparr>" and pw = "''builder123''", OF a _ b]
    by (simp add: c bob_form_def bob_login_def new_user_def)
qed

subsection \<open>The branches of the validation, one by one\<close>

text \<open>
  What each test of the two handlers answers, for every request and every instance of
  the collaborators. In the login handler a missing password ends in the prompt for
  both fields whether the username is there or not, so the test that follows it for a
  missing password alone never fires.
\<close>

lemma login_password_missing:
  "falsy (password (body req)) \<Longrightarrow>
   post_login env req s =
     (Render 400 ''auth/login''
        [(''errorMessage'', Str ''Please provide your username and password.'')], s)"
  by (simp add: post_login_def Let_def login_error_def)

lemma login_username_missing:
  "\<not> falsy (password (body req)) \<Longrightarrow> falsy (username (body req)) \<Longrightarrow>
   post_login env req s =
     (Render 400 ''auth/login'' [(''errorMessage'', Str ''Please provide your username.'')], s)"
  by (simp add: post_login_def Let_def login_error_def)

lemma login_short_password:
  "\<not> falsy (username (body req)) \<Longrightarrow> password (body req) = Some pw \<Longrightarrow> pw \<noteq> [] \<Longrightarrow>
   length pw < 8 \<Longrightarrow>
   post_login env req s =
     (Render 400 ''auth/login''
        [(''errorMessage'', Str ''Your password needs to be at least 8 characters long.'')], s)"
  by (simp add: post_login_def Let_def login_error_def falsy_def)

lemma signup_short_password:
  "\<not> falsy (username (body req)) \<Longrightarrow> \<not> falsy (name (body req)) \<Longrightarrow>
   \<not> falsy (email (body req)) \<Longrightarrow> password (body req) = Some pw \<Longrightarrow> length pw < 8 \<Longrightarrow>
   post_signup env req s =
     (Render 400 ''auth/signup''
        (signup_locals env ''Your password needs to be at least 8 characters long.'' (body req)), s)"
  by (simp add: post_signup_def Let_def)

lemma signup_password_undefined:
  "\<not> falsy (username (body req)) \<Longrightarrow> \<not> falsy (name (body req)) \<Longrightarrow>
   \<not> falsy (email (body req)) \<Longrightarrow> password (body req) = None \<Longrightarrow>
   post_signup env req s = (Throw length_of_undefined, s)"
  by (simp add: post_signup_def Let_def)

lemma signup_found:
  assumes "\<not> falsy (username (body req))" and "\<not> falsy (name (body req))"
    and "\<not> falsy (email (body req))"
    and "password (body req) = Some pw" and "8 \<le> length pw"
    and "findOne_rejects env = None"
    and "u \<in> set (users s)"
    and "u_username u = username (body req) \<or> u_email u = email (body req)"
  shows "post_signup env req s =
     (UnhandledRejection (JsError ReferenceError None ''newsletter is not defined''), s)"
proof -
  let ?q = "Or [Username (username (body req)), Email (email (body req))]"
  have "find (matches ?q) (users s) \<noteq> None"
    using assms(7,8) by (auto simp: find_None_iff)
  then obtain v where "find (matches ?q) (users s) = Some v"
    by auto
  then show ?thesis
    using assms(1-6) by (simp add: post_signup_def Let_def User_findOne_def)
qed

lemma signup_catch_cases:
  "signup_catch error =
     Render (if err_class error = ValidationError \<or> err_code error = Some 11000 then 400 else 500)
       (if err_class error \<noteq> ValidationError \<and> err_code error = Some 11000 then ''signup''
        else ''auth/signup'')
       [(''errorMessage'',
         Str (if err_class error \<noteq> ValidationError \<and> err_code error = Some 11000
              then ''Username and email need to be unique. The username/email you entered is already in use.''
              else err_message error))]"
  by (simp add: signup_catch_def)

subsection \<open>Signup: a username or an email that is taken\<close>

text \<open>
  Claim C1. A signup whose username or email matches an existing User is to end in a
  render of the signup view with status 400 and the message
  \<^verbatim>\<open>Username or email already taken\<close>, with no second User created. Evaluated on a
  signup with the username of the one stored user: no user is created, but no view is
  rendered either; the object literal of the render names \<^verbatim>\<open>newsletter\<close>, which the
  module declares nowhere, and the request ends in a rejected promise that nothing
  catches.
\<close>

theorem signup_taken_username_unhandled:
  "post_signup demo_env \<lparr>sessionID = 1, body = bob_form\<lparr>username := Some ''alice''\<rparr>\<rparr> alice_state =
     (UnhandledRejection (JsError ReferenceError None ''newsletter is not defined''), alice_state)"
  by (simp add: handler_defs demo_defs)

subsection \<open>Signup and login: how a request ends\<close>

text \<open>
  Claim C2. Every signup and login submission is to end in a rendered view or a
  redirect, never in an exception. Evaluated on two signups: one with username, name
  and email but no password field, where reading \<^verbatim>\<open>password.length\<close> throws a
  TypeError out of the handler (the login handler tests for a missing password before
  it reads the length; the signup handler does not), and one with the email of the
  stored user, which ends in the uncaught ReferenceError.
\<close>

theorem signup_absent_password_throws:
  "post_signup demo_env \<lparr>sessionID = 1, body = bob_form\<lparr>password := None\<rparr>\<rparr> alice_state =
     (Throw (JsError TypeError None ''Cannot read properties of undefined (reading 'length')''),
      alice_state) \<and>
   post_signup demo_env \<lparr>sessionID = 1, body = bob_form\<lparr>email := Some ''alice@example.org''\<rparr>\<rparr>
     alice_state =
     (UnhandledRejection (JsError ReferenceError None ''newsletter is not defined''), alice_state)"
  by (simp add: handler_defs demo_defs)

subsection \<open>Login: the order of the validation\<close>

text \<open>
  Claim C3. The login validation is to answer a missing password, the username being
  present, with the prompt for the password. Evaluated on a login with a username and no
  password: the answer is the prompt for both fields, since the first test of the
  handler reads the password twice and the username not at all.
\<close>

theorem login_absent_password_generic_prompt:
  "post_login demo_env
     \<lparr>sessionID = 1, body = bob_login\<lparr>username := Some ''alice'', password := None\<rparr>\<rparr> alice_state =
     (Render 400 ''auth/login''
        [(''errorMessage'', Str ''Please provide your username and password.'')],
      alice_state)"
  by (simp add: handler_defs demo_defs)

subsection \<open>Signup: a write the store rejects as a duplicate\<close>

text \<open>
  Claim C6. A duplicate-key rejection of the create is to be rendered back to the
  signup view with status 400. Evaluated on a signup whose write the store rejects with
  code 11000: the status is 400 and the message says the username or email is in use,
  but the view rendered is \<^verbatim>\<open>signup\<close>, where every other render of the handler,
  and the route that shows the form, names the signup view \<^verbatim>\<open>auth/signup\<close>.
\<close>

theorem signup_duplicate_key_view:
  "post_signup
     (demo_env\<lparr>create_rejects := Some (JsError OtherError (Some 11000) ''E11000 duplicate key error'')\<rparr>)
     \<lparr>sessionID = 1, body = bob_form\<rparr> alice_state =
     (Render 400 ''signup''
        [(''errorMessage'',
          Str ''Username and email need to be unique. The username/email you entered is already in use.'')],
      alice_state)"
  by (simp add: handler_defs demo_defs)

subsection \<open>Empty and absent form fields\<close>

text \<open>
  Claim C10. An empty form field is to behave as an absent one. Evaluated on two
  signups that differ in the password alone: sent empty, it is answered with the render
  of the signup view with status 400 and the message on the password's length; not
  sent, it makes the handler throw the TypeError.
\<close>

theorem signup_absent_password_unlike_empty:
  "fst (post_signup demo_env \<lparr>sessionID = 1, body = bob_form\<lparr>password := Some ''''\<rparr>\<rparr> alice_state) =
     Render 400 ''auth/signup''
       (signup_locals demo_env ''Your password needs to be at least 8 characters long.''
          (bob_form\<lparr>password := Some ''''\<rparr>)) \<and>
   fst (post_signup demo_env \<lparr>sessionID = 1, body = bob_form\<lparr>password := None\<rparr>\<rparr> alice_state) =
     Throw length_of_undefined"
  by (simp add: handler_defs demo_defs)

end
